theory Spec2Isabelle
  imports Complex_Main "HOL-Library.Word"
begin

unbundle bit_operations_syntax

section \<open>Values, errors and the measurement record\<close>

text \<open>
  The module \<^verbatim>\<open>pycycling/rear_view_radar.py\<close> decodes the notification payloads of two
  rear-view radars. A payload is a \<^verbatim>\<open>bytearray\<close>: a list of bytes. Indexing it and
  unpacking it with the format \<^verbatim>\<open>B\<close> give Python integers, which are unbounded: \<open>int\<close>.
\<close>

type_synonym byte = "8 word"

text \<open>The Python values that reach the fields of a measurement: \<^verbatim>\<open>None\<close> and integers.\<close>

datatype pyval = PyNone | PyInt int

text \<open>
  The exceptions of the module: \<^verbatim>\<open>TypeError\<close> (a call with the wrong number of
  arguments), \<^verbatim>\<open>IndexError\<close> (an index past the end of the payload) and
  \<^verbatim>\<open>struct.error\<close> (a buffer too small for the format).
\<close>

datatype error = TypeError | IndexError | StructError

text \<open>
  \<^verbatim>\<open>RadarMeasurement = namedtuple('RadarMeasurement', ['threat_id', 'level', 'speed', 'distance'])\<close>
\<close>

record RadarMeasurement =
  threat_id :: pyval
  level :: pyval
  speed :: pyval
  distance :: pyval

text \<open>
  The constructor of the named tuple takes its four fields positionally, in the declared
  order, without checking their types. Any other number of positional arguments raises
  \<^verbatim>\<open>TypeError\<close>.
\<close>

fun RadarMeasurement_new :: "pyval list \<Rightarrow> error + RadarMeasurement" where
  "RadarMeasurement_new [a, b, c, d] =
     Inr \<lparr>threat_id = a, level = b, speed = c, distance = d\<rparr>"
| "RadarMeasurement_new _ = Inl TypeError"

text \<open>
  What a decoder returns: a list of measurements, or \<^verbatim>\<open>None\<close> (\<open>None\<close> here too).
\<close>

type_synonym parse_value = "RadarMeasurement list option"

section \<open>The radar classes\<close>

datatype variant = BrytonGardiaRadar | GarminVariaRadar

definition RADAR_CHARACTERISTIC_ID :: "variant \<Rightarrow> string" where
  "RADAR_CHARACTERISTIC_ID c =
     (case c of
        BrytonGardiaRadar \<Rightarrow> ''f3641401-00b0-4240-ba50-05ca45bf8abc''
      | GarminVariaRadar \<Rightarrow> ''6a4e3203-667b-11e3-949a-0800200c9a66'')"

text \<open>
  An instance of either class: its class, the transport client it was built on (an opaque
  handle) and the registered callback, \<^verbatim>\<open>None\<close> after \<^verbatim>\<open>__init__\<close>. A callback is
  named by a number; what it does is the caller's business.
\<close>

record radar =
  cls :: variant
  client :: nat
  radar_measurement_callback :: "nat option"

definition radar_init :: "variant \<Rightarrow> nat \<Rightarrow> radar" where
  "radar_init c cl = \<lparr>cls = c, client = cl, radar_measurement_callback = None\<rparr>"

definition set_radar_measurement_handler :: "radar \<Rightarrow> nat option \<Rightarrow> radar" where
  "set_radar_measurement_handler self callback =
     self\<lparr>radar_measurement_callback := callback\<rparr>"

section \<open>The bit-packed decoder of BrytonGardiaRadar\<close>

text \<open>
  \<^verbatim>\<open>struct.unpack_from("BBB3BBB", data)\<close> reads eight unsigned bytes from the start of the
  buffer. It raises \<^verbatim>\<open>struct.error\<close> when the buffer holds fewer than eight bytes, and
  ignores whatever follows the eighth.
\<close>

definition unpack_from_BBB3BBB ::
  "byte list \<Rightarrow> error + (int \<times> int \<times> int \<times> int \<times> int \<times> int \<times> int \<times> int)" where
  "unpack_from_BBB3BBB data =
     (if length data < 8 then Inl StructError
      else Inr (uint (data ! 0), uint (data ! 1), uint (data ! 2), uint (data ! 3),
                uint (data ! 4), uint (data ! 5), uint (data ! 6), uint (data ! 7)))"

text \<open>The locals of the decoder, one definition per assignment.\<close>

definition threat_1_level :: "int \<Rightarrow> int" where
  "threat_1_level threat_level = threat_level AND 3"

definition threat_2_level :: "int \<Rightarrow> int" where
  "threat_2_level threat_level = drop_bit 2 threat_level AND 3"

definition threat_3_level :: "int \<Rightarrow> int" where
  "threat_3_level threat_level = drop_bit 4 threat_level AND 3"

definition threat_4_level :: "int \<Rightarrow> int" where
  "threat_4_level threat_level = drop_bit 6 threat_level AND 3"

definition threat_1_distance :: "int \<Rightarrow> int" where
  "threat_1_distance tmp_threat_distance_1 = drop_bit 0 tmp_threat_distance_1 AND 63"

definition threat_2_distance :: "int \<Rightarrow> int \<Rightarrow> int" where
  "threat_2_distance tmp_threat_distance_1 tmp_threat_distance_2 =
     (drop_bit 6 tmp_threat_distance_1 AND 3)
       OR push_bit 2 (drop_bit 0 tmp_threat_distance_2 AND 15)"

definition threat_3_distance :: "int \<Rightarrow> int \<Rightarrow> int" where
  "threat_3_distance tmp_threat_distance_2 tmp_threat_distance_3 =
     (drop_bit 4 tmp_threat_distance_2 AND 15)
       OR push_bit 4 (drop_bit 0 tmp_threat_distance_3 AND 3)"

definition threat_4_distance :: "int \<Rightarrow> int" where
  "threat_4_distance tmp_threat_distance_3 = drop_bit 2 tmp_threat_distance_3 AND 63"

definition threat_1_speed :: "int \<Rightarrow> int" where
  "threat_1_speed threat_speed_1 = drop_bit 0 threat_speed_1 AND 15"

definition threat_2_speed :: "int \<Rightarrow> int" where
  "threat_2_speed threat_speed_1 = drop_bit 4 threat_speed_1 AND 15"

definition threat_3_speed :: "int \<Rightarrow> int" where
  "threat_3_speed threat_speed_2 = drop_bit 0 threat_speed_2 AND 15"

definition threat_4_speed :: "int \<Rightarrow> int" where
  "threat_4_speed threat_speed_2 = drop_bit 4 threat_speed_2 AND 15"

text \<open>
  \<^verbatim>\<open>if cond: radar_measurements.append(RadarMeasurement(*args))\<close>: the list grows by the
  measurement built from the arguments, or the constructor's exception leaves the decoder.
\<close>

definition append_if ::
  "bool \<Rightarrow> pyval list \<Rightarrow> RadarMeasurement list \<Rightarrow> error + RadarMeasurement list" where
  "append_if cond args radar_measurements =
     (if cond then
        (case RadarMeasurement_new args of
           Inl e \<Rightarrow> Inl e
         | Inr m \<Rightarrow> Inr (radar_measurements @ [m]))
      else Inr radar_measurements)"

text \<open>
  \<^verbatim>\<open>BrytonGardiaRadar._parse_radar_measurement(self, data)\<close>. The three \<^verbatim>\<open>print\<close> calls
  write the four levels, the four distances times 3.125 and the four speeds times
  3.04 * 3.6 to standard output; they bind nothing and are not part of the value returned.
  The measurements are built from the unscaled locals, for the first two threats only.
\<close>

definition Bryton_parse_radar_measurement :: "radar \<Rightarrow> byte list \<Rightarrow> error + parse_value" where
  "Bryton_parse_radar_measurement self data =
     (case unpack_from_BBB3BBB data of
        Inl e \<Rightarrow> Inl e
      | Inr (page, threat_level, threat_side, tmp_threat_distance_1, tmp_threat_distance_2,
             tmp_threat_distance_3, threat_speed_1, threat_speed_2) \<Rightarrow>
          (case append_if (threat_1_level threat_level > 0)
                  [PyNone, PyInt (threat_1_level threat_level),
                   PyInt (threat_1_speed threat_speed_1),
                   PyInt (threat_1_distance tmp_threat_distance_1)] [] of
             Inl e \<Rightarrow> Inl e
           | Inr ms1 \<Rightarrow>
               (case append_if (threat_2_level threat_level > 0)
                       [PyNone, PyInt (threat_2_level threat_level),
                        PyInt (threat_2_speed threat_speed_1),
                        PyInt (threat_2_distance tmp_threat_distance_1 tmp_threat_distance_2)]
                       ms1 of
                  Inl e \<Rightarrow> Inl e
                | Inr ms2 \<Rightarrow> Inr (Some ms2))))"

section \<open>The byte-aligned decoder of GarminVariaRadar\<close>

text \<open>
  \<^verbatim>\<open>data[i]\<close> for an index that is not negative: the byte as an integer, or
  \<^verbatim>\<open>IndexError\<close> past the end.
\<close>

definition getitem :: "byte list \<Rightarrow> nat \<Rightarrow> error + int" where
  "getitem data i = (if i < length data then Inr (uint (data ! i)) else Inl IndexError)"

text \<open>
  The loop \<^verbatim>\<open>for i in range(1, len(data), 3)\<close> with the list built so far. The body reads
  three bytes and calls the constructor with three positional arguments,
  \<^verbatim>\<open>RadarMeasurement(threat_id, speed, distance)\<close>. An exception ends the loop.
  The three locals carry a prime here, their names being the record's fields.
\<close>

function Garmin_loop ::
  "byte list \<Rightarrow> nat \<Rightarrow> RadarMeasurement list \<Rightarrow> error + RadarMeasurement list" where
  "Garmin_loop data i radar_measurements =
     (if i < length data then
        (case getitem data i of
           Inl e \<Rightarrow> Inl e
         | Inr threat_id' \<Rightarrow>
             (case getitem data (i + 1) of
                Inl e \<Rightarrow> Inl e
              | Inr distance' \<Rightarrow>
                  (case getitem data (i + 2) of
                     Inl e \<Rightarrow> Inl e
                   | Inr speed' \<Rightarrow>
                       (case RadarMeasurement_new [PyInt threat_id', PyInt speed', PyInt distance'] of
                          Inl e \<Rightarrow> Inl e
                        | Inr m \<Rightarrow> Garmin_loop data (i + 3) (radar_measurements @ [m])))))
      else Inr radar_measurements)"
  by pat_completeness auto
termination
  by (relation "measure (\<lambda>(data, i, radar_measurements). length data - i)") auto

declare Garmin_loop.simps [simp del]

text \<open>
  \<^verbatim>\<open>GarminVariaRadar._parse_radar_measurement(data)\<close>, the function as the class declares
  it, with the payload as its only parameter. The \<^verbatim>\<open>try\<close> catches \<^verbatim>\<open>IndexError\<close> alone
  and returns \<^verbatim>\<open>None\<close> for it; every other exception leaves the function.
\<close>

definition Garmin_parse_radar_measurement :: "byte list \<Rightarrow> error + parse_value" where
  "Garmin_parse_radar_measurement data =
     (case Garmin_loop data 1 [] of
        Inl IndexError \<Rightarrow> Inr None
      | Inl e \<Rightarrow> Inl e
      | Inr radar_measurements \<Rightarrow> Inr (Some radar_measurements))"

section \<open>Dispatch of a notification\<close>

text \<open>
  Both classes call the decoder as \<^verbatim>\<open>self._parse_radar_measurement(data)\<close>. A call through
  the instance passes the instance and the payload, two positional arguments.
  \<^verbatim>\<open>BrytonGardiaRadar\<close> declares the decoder with the parameters \<^verbatim>\<open>(self, data)\<close>.
  \<^verbatim>\<open>GarminVariaRadar\<close> declares it with the single parameter \<^verbatim>\<open>(data)\<close>, so there the
  call raises \<^verbatim>\<open>TypeError\<close> before the body runs.
\<close>

definition call_parse_on_instance :: "radar \<Rightarrow> byte list \<Rightarrow> error + parse_value" where
  "call_parse_on_instance self data =
     (case cls self of
        BrytonGardiaRadar \<Rightarrow> Bryton_parse_radar_measurement self data
      | GarminVariaRadar \<Rightarrow> Inl TypeError)"

text \<open>
  What one delivery does: nothing, an exception that leaves the handler, or one call of
  the callback with the value of the decoder.
\<close>

datatype outcome = NoCall | Raised error | Invoked nat parse_value

text \<open>
  \<^verbatim>\<open>self._radar_measurement_callback(<decoder call>)\<close>: the argument is evaluated first;
  its exception leaves the handler, its value goes to the callback as it is.
\<close>

definition invoke_callback :: "nat \<Rightarrow> error + parse_value \<Rightarrow> outcome" where
  "invoke_callback callback decoded =
     (case decoded of Inl e \<Rightarrow> Raised e | Inr v \<Rightarrow> Invoked callback v)"

text \<open>
  \<^verbatim>\<open>_radar_measurement_notification_handler(self, sender, data)\<close>, the same text in both
  classes; \<^verbatim>\<open>sender\<close> is unused.
\<close>

definition radar_measurement_notification_handler :: "radar \<Rightarrow> byte list \<Rightarrow> outcome" where
  "radar_measurement_notification_handler self data =
     (case radar_measurement_callback self of
        None \<Rightarrow> NoCall
      | Some callback \<Rightarrow> invoke_callback callback (call_parse_on_instance self data))"

section \<open>Notifications and the service\<close>

text \<open>
  The transport is outside the module. Enabling and disabling each make one call on the
  client, recorded here with its characteristic identifier; \<^verbatim>\<open>start_notify\<close> is given
  the instance's own handler.
\<close>

datatype transport_call = StartNotify nat string | StopNotify nat string

definition enable_radar_measurement_notifications :: "radar \<Rightarrow> transport_call" where
  "enable_radar_measurement_notifications self =
     StartNotify (client self) (RADAR_CHARACTERISTIC_ID (cls self))"

definition disable_radar_measurement_notifications :: "radar \<Rightarrow> transport_call" where
  "disable_radar_measurement_notifications self =
     StopNotify (client self) (RADAR_CHARACTERISTIC_ID (cls self))"

text \<open>
  \<^verbatim>\<open>RearViewRadarService.__init__(self, client, radar: BaseRadar = GarminVariaRadar)\<close>:
  the class to instantiate is an optional argument, \<open>None\<close> when the caller omits it.
\<close>

record RearViewRadarService =
  service_radar :: radar

definition RearViewRadarService_init :: "nat \<Rightarrow> variant option \<Rightarrow> RearViewRadarService" where
  "RearViewRadarService_init cl radar_arg =
     \<lparr>service_radar =
        radar_init (case radar_arg of None \<Rightarrow> GarminVariaRadar | Some c \<Rightarrow> c) cl\<rparr>"

definition service_enable_radar_measurement_notifications ::
  "RearViewRadarService \<Rightarrow> transport_call" where
  "service_enable_radar_measurement_notifications self =
     enable_radar_measurement_notifications (service_radar self)"

definition service_disable_radar_measurement_notifications ::
  "RearViewRadarService \<Rightarrow> transport_call" where
  "service_disable_radar_measurement_notifications self =
     disable_radar_measurement_notifications (service_radar self)"

definition service_set_radar_measurement_handler ::
  "RearViewRadarService \<Rightarrow> nat option \<Rightarrow> RearViewRadarService" where
  "service_set_radar_measurement_handler self callback =
     self\<lparr>service_radar := set_radar_measurement_handler (service_radar self) callback\<rparr>"

section \<open>The wording of the specification, for comparison\<close>

text \<open>
  The bit fields of a byte value as the specification names them: the low \<open>n\<close> bits, the
  top \<open>n\<close> bits of the eight, the bits from position \<open>lo\<close> to position \<open>hi\<close>, and a
  value whose \<open>n\<close> low bits are one field with a second field above them.
\<close>

definition low_bits :: "nat \<Rightarrow> int \<Rightarrow> int" where
  "low_bits n x = x mod 2 ^ n"

definition top_bits :: "nat \<Rightarrow> int \<Rightarrow> int" where
  "top_bits n x = x div 2 ^ (8 - n)"

definition bit_range :: "nat \<Rightarrow> nat \<Rightarrow> int \<Rightarrow> int" where
  "bit_range lo hi x = (x div 2 ^ lo) mod 2 ^ (Suc hi - lo)"

definition concat_low_high :: "int \<Rightarrow> nat \<Rightarrow> int \<Rightarrow> int" where
  "concat_low_high lo n hi = lo + 2 ^ n * hi"

text \<open>The four distance slots in the specification's words.\<close>

definition spec_slot_1_distance :: "int \<Rightarrow> int" where
  "spec_slot_1_distance dist1 = low_bits 6 dist1"

definition spec_slot_2_distance :: "int \<Rightarrow> int \<Rightarrow> int" where
  "spec_slot_2_distance dist1 dist2 = concat_low_high (top_bits 2 dist1) 2 (low_bits 4 dist2)"

definition spec_slot_3_distance :: "int \<Rightarrow> int \<Rightarrow> int" where
  "spec_slot_3_distance dist2 dist3 = concat_low_high (top_bits 4 dist2) 4 (low_bits 2 dist3)"

definition spec_slot_4_distance :: "int \<Rightarrow> int" where
  "spec_slot_4_distance dist3 = bit_range 2 7 dist3"

text \<open>
  The scaled values of the specification, as exact numbers: a raw distance times 3.125 in
  metres, a raw speed times 3.04 * 3.6 in kilometres per hour.
\<close>

definition spec_distance_metres :: "int \<Rightarrow> real" where
  "spec_distance_metres raw = of_int raw * 3.125"

definition spec_speed_kmh :: "int \<Rightarrow> real" where
  "spec_speed_kmh raw = of_int raw * 3.04 * 3.6"

text \<open>The number a field holds; \<^verbatim>\<open>None\<close> holds none.\<close>

fun py_number :: "pyval \<Rightarrow> real option" where
  "py_number PyNone = None"
| "py_number (PyInt i) = Some (of_int i)"

section \<open>Bit arithmetic on Python integers\<close>

lemma and_3_take_bit: "(x::int) AND 3 = take_bit 2 x"
  by (simp add: take_bit_eq_mask mask_eq_exp_minus_1)

lemma and_15_take_bit: "(x::int) AND 15 = take_bit 4 x"
  by (simp add: take_bit_eq_mask mask_eq_exp_minus_1)

lemma and_63_take_bit: "(x::int) AND 63 = take_bit 6 x"
  by (simp add: take_bit_eq_mask mask_eq_exp_minus_1)

lemma take_bit_or_push_bit:
  "take_bit n (a::int) OR push_bit n b = take_bit n a + push_bit n b"
  using concat_bit_eq [of n a b] by (simp add: concat_bit_def)

lemma uint_byte_range: "0 \<le> uint (b::byte) \<and> uint b < 256"
  using uint_lt2p [of b] by simp

lemma mod_4_range: "0 \<le> (y::int) mod 4 \<and> y mod 4 \<le> 3"
  by presburger

lemma mod_16_range: "0 \<le> (y::int) mod 16 \<and> y mod 16 \<le> 15"
  by presburger

lemma mod_64_range: "0 \<le> (y::int) mod 64 \<and> y mod 64 \<le> 63"
  by presburger

lemma top_two_bits:
  "0 \<le> x \<Longrightarrow> x < 256 \<Longrightarrow> take_bit 2 (drop_bit 6 (x::int)) = x div 64"
  by (simp add: take_bit_eq_mod drop_bit_eq_div)

lemma top_four_bits:
  "0 \<le> x \<Longrightarrow> x < 256 \<Longrightarrow> take_bit 4 (drop_bit 4 (x::int)) = x div 16"
  by (simp add: take_bit_eq_mod drop_bit_eq_div)

lemma level_range:
  "0 \<le> threat_1_level x \<and> threat_1_level x \<le> 3 \<and>
   0 \<le> threat_2_level x \<and> threat_2_level x \<le> 3"
  using mod_4_range [of x] mod_4_range [of "drop_bit 2 x"]
  by (simp add: threat_1_level_def threat_2_level_def and_3_take_bit take_bit_eq_mod)

lemma speed_range:
  "0 \<le> threat_1_speed x \<and> threat_1_speed x \<le> 15 \<and>
   0 \<le> threat_2_speed x \<and> threat_2_speed x \<le> 15"
  using mod_16_range [of x] mod_16_range [of "drop_bit 4 x"]
  by (simp add: threat_1_speed_def threat_2_speed_def and_15_take_bit take_bit_eq_mod)

text \<open>The two fields of a slot that crosses a byte edge do not overlap: the OR is a sum.\<close>

lemma threat_2_distance_sum:
  "threat_2_distance x y = take_bit 2 (drop_bit 6 x) + push_bit 2 (take_bit 4 y)"
  by (simp add: threat_2_distance_def and_3_take_bit and_15_take_bit take_bit_or_push_bit)

lemma threat_3_distance_sum:
  "threat_3_distance x y = take_bit 4 (drop_bit 4 x) + push_bit 4 (take_bit 2 y)"
  by (simp add: threat_3_distance_def and_3_take_bit and_15_take_bit take_bit_or_push_bit)

lemma distance_range:
  "0 \<le> threat_1_distance x \<and> threat_1_distance x \<le> 63 \<and>
   0 \<le> threat_2_distance x y \<and> threat_2_distance x y \<le> 63"
  using mod_64_range [of x] mod_4_range [of "x div 64"] mod_16_range [of y]
  by (simp add: threat_1_distance_def threat_2_distance_sum and_63_take_bit take_bit_eq_mod
      drop_bit_eq_div push_bit_eq_mult)

lemma level_ignores_high_nibble:
  "threat_1_level (uint (lv AND 15 :: byte)) = threat_1_level (uint lv)"
  "threat_2_level (uint (lv AND 15 :: byte)) = threat_2_level (uint lv)"
  by (simp_all add: threat_1_level_def threat_2_level_def uint_and and_3_take_bit
      and_15_take_bit drop_bit_take_bit)

lemma distance_ignores_high_nibble:
  "threat_2_distance x (uint (d AND 15 :: byte)) = threat_2_distance x (uint d)"
  by (simp add: threat_2_distance_sum uint_and and_15_take_bit)

lemma threat_1_distance_spec:
  "threat_1_distance (uint (a::byte)) = spec_slot_1_distance (uint a)"
  by (simp add: threat_1_distance_def spec_slot_1_distance_def low_bits_def and_63_take_bit
      take_bit_eq_mod)

lemma threat_2_distance_spec:
  "threat_2_distance (uint (a::byte)) (uint (b::byte)) = spec_slot_2_distance (uint a) (uint b)"
proof -
  have "take_bit 2 (drop_bit 6 (uint a)) = uint a div 64"
    using uint_byte_range [of a] by (simp only: top_two_bits)
  then show ?thesis
    by (simp add: threat_2_distance_sum spec_slot_2_distance_def concat_low_high_def
        top_bits_def low_bits_def push_bit_eq_mult take_bit_eq_mod)
qed

lemma threat_3_distance_spec:
  "threat_3_distance (uint (a::byte)) (uint (b::byte)) = spec_slot_3_distance (uint a) (uint b)"
proof -
  have "take_bit 4 (drop_bit 4 (uint a)) = uint a div 16"
    using uint_byte_range [of a] by (simp only: top_four_bits)
  then show ?thesis
    by (simp add: threat_3_distance_sum spec_slot_3_distance_def concat_low_high_def
        top_bits_def low_bits_def push_bit_eq_mult take_bit_eq_mod)
qed

lemma threat_4_distance_spec:
  "threat_4_distance (uint (a::byte)) = spec_slot_4_distance (uint a)"
  by (simp add: threat_4_distance_def spec_slot_4_distance_def bit_range_def and_63_take_bit
      take_bit_eq_mod drop_bit_eq_div)

section \<open>The bit-packed decoder on a payload\<close>

lemma unpack_eight:
  "unpack_from_BBB3BBB [pg, lv, sd, dist1, dist2, dist3, speed1, speed2] =
     Inr (uint pg, uint lv, uint sd, uint dist1, uint dist2, uint dist3, uint speed1, uint speed2)"
  by (simp add: unpack_from_BBB3BBB_def)

text \<open>On eight bytes the decoder returns the measurements of the first two threats whose level is positive.\<close>

lemma Bryton_parse_eight:
  "Bryton_parse_radar_measurement self [pg, lv, sd, dist1, dist2, dist3, speed1, speed2] =
     Inr (Some ((if 0 < threat_1_level (uint lv)
                 then [\<lparr>threat_id = PyNone, level = PyInt (threat_1_level (uint lv)),
                        speed = PyInt (threat_1_speed (uint speed1)),
                        distance = PyInt (threat_1_distance (uint dist1))\<rparr>] else []) @
                (if 0 < threat_2_level (uint lv)
                 then [\<lparr>threat_id = PyNone, level = PyInt (threat_2_level (uint lv)),
                        speed = PyInt (threat_2_speed (uint speed1)),
                        distance = PyInt (threat_2_distance (uint dist1) (uint dist2))\<rparr>]
                 else [])))"
  by (simp add: Bryton_parse_radar_measurement_def unpack_eight append_if_def)

lemma Bryton_parse_short:
  "length data < 8 \<Longrightarrow> Bryton_parse_radar_measurement self data = Inl StructError"
  by (simp add: Bryton_parse_radar_measurement_def unpack_from_BBB3BBB_def)

lemma Bryton_parse_long:
  assumes "8 \<le> length data"
  shows "\<exists>ms. Bryton_parse_radar_measurement self data = Inr (Some ms)"
  using assms
  by (simp add: Bryton_parse_radar_measurement_def unpack_from_BBB3BBB_def append_if_def)

text \<open>Bytes after the eighth are not read.\<close>

lemma Bryton_parse_prefix:
  "8 \<le> length data \<Longrightarrow>
     Bryton_parse_radar_measurement self data = Bryton_parse_radar_measurement self (take 8 data)"
  by (simp add: Bryton_parse_radar_measurement_def unpack_from_BBB3BBB_def)

text \<open>The decoder reads no attribute of the instance.\<close>

lemma Bryton_parse_ignores_self:
  "Bryton_parse_radar_measurement self data = Bryton_parse_radar_measurement self' data"
  by (simp add: Bryton_parse_radar_measurement_def)

text \<open>Bytes appended to an 8-byte payload do not change the result.\<close>

lemma Bryton_parse_extra_bytes:
  "Bryton_parse_radar_measurement self
       ([pg, lv, sd, dist1, dist2, dist3, speed1, speed2] @ extra) =
     Bryton_parse_radar_measurement self [pg, lv, sd, dist1, dist2, dist3, speed1, speed2]"
  by (simp add: Bryton_parse_radar_measurement_def unpack_from_BBB3BBB_def)


section \<open>The byte-aligned decoder on a payload\<close>

text \<open>
  One pass of the loop decides the result. With three bytes from index \<open>i\<close> on, the
  constructor is called with three arguments and raises; with one or two, an index is
  past the end; with none, the loop is over.
\<close>

lemma Garmin_loop_complete_group:
  "i + 3 \<le> length data \<Longrightarrow> Garmin_loop data i ms = Inl TypeError"
  by (subst Garmin_loop.simps) (simp add: getitem_def)


lemma Garmin_loop_exhausted:
  "length data \<le> i \<Longrightarrow> Garmin_loop data i ms = Inr ms"
  by (subst Garmin_loop.simps) simp

lemma Garmin_parse_complete_group:
  "4 \<le> length data \<Longrightarrow> Garmin_parse_radar_measurement data = Inl TypeError"
  using Garmin_loop_complete_group [of 1 data "[]"]
  by (simp add: Garmin_parse_radar_measurement_def)


lemma Garmin_parse_no_group:
  "length data \<le> 1 \<Longrightarrow> Garmin_parse_radar_measurement data = Inr (Some [])"
  using Garmin_loop_exhausted [of data 1 "[]"]
  by (simp add: Garmin_parse_radar_measurement_def)





section \<open>The claims\<close>

subsection \<open>The byte-aligned decoder on complete groups\<close>

text \<open>
  C1. The specification has the byte-aligned decoder return one measurement per complete
  3-byte group, so one measurement with \<open>threat_id = 5\<close> for the four bytes 00 05 0A 14.
  The decoder reads the three bytes of the group and then calls the four-field
  constructor with three arguments: on this payload it raises \<^verbatim>\<open>TypeError\<close> and returns
  nothing. By \<open>Garmin_parse_complete_group\<close> the same holds for every payload of four
  bytes or more.
\<close>

theorem Garmin_parse_example_raises:
  "Garmin_parse_radar_measurement [0, 5, 10, 20] = Inl TypeError"
  by (simp add: Garmin_parse_complete_group)

subsection \<open>Distance and speed of an emitted measurement\<close>

text \<open>
  C2, as the code has it. For every 8-byte payload the decoder returns a list, and the
  distance fields of its measurements are, in slot order, the raw 6-bit distances of the
  first two slots whose level is positive: integers from 0 to 63, not multiplied by
  3.125. The product by 3.125 is only printed.
\<close>

theorem Bryton_distance_unscaled:
  "\<exists>ms. Bryton_parse_radar_measurement self [pg, lv, sd, dist1, dist2, dist3, speed1, speed2]
           = Inr (Some ms)
       \<and> map distance ms =
           map PyInt
             ((if 0 < threat_1_level (uint lv) then [threat_1_distance (uint dist1)] else []) @
              (if 0 < threat_2_level (uint lv)
               then [threat_2_distance (uint dist1) (uint dist2)] else []))
       \<and> 0 \<le> threat_1_distance (uint dist1) \<and> threat_1_distance (uint dist1) \<le> 63
       \<and> 0 \<le> threat_2_distance (uint dist1) (uint dist2)
       \<and> threat_2_distance (uint dist1) (uint dist2) \<le> 63"
  using distance_range [of "uint dist1" "uint dist2"]
  by (simp add: Bryton_parse_eight)

text \<open>
  The claim as stated fails where the raw distance is not zero. The payload
  00 01 00 3F 00 00 00 00 has level 1 and raw distance 63 in slot 1; the measurement
  holds 63, and 63 * 3.125 is 196.875.
\<close>

theorem Bryton_distance_scaled_counterexample:
  "Bryton_parse_radar_measurement (radar_init BrytonGardiaRadar 0) [0, 1, 0, 63, 0, 0, 0, 0] =
     Inr (Some [\<lparr>threat_id = PyNone, level = PyInt 1, speed = PyInt 0, distance = PyInt 63\<rparr>])
   \<and> threat_1_distance (uint (63 :: byte)) = 63
   \<and> spec_distance_metres 63 = 196.875
   \<and> py_number (PyInt 63) \<noteq> Some (spec_distance_metres 63)"
  by (simp add: Bryton_parse_eight threat_1_level_def threat_2_level_def threat_1_speed_def
      threat_1_distance_def spec_distance_metres_def)

text \<open>
  C3, as the code has it. For every 8-byte payload the speed fields of the measurements
  are, in slot order, the raw 4-bit speeds of the first two slots whose level is positive:
  integers from 0 to 15, not multiplied by 3.04 * 3.6. The product is only printed.
\<close>

theorem Bryton_speed_unscaled:
  "\<exists>ms. Bryton_parse_radar_measurement self [pg, lv, sd, dist1, dist2, dist3, speed1, speed2]
           = Inr (Some ms)
       \<and> map speed ms =
           map PyInt
             ((if 0 < threat_1_level (uint lv) then [threat_1_speed (uint speed1)] else []) @
              (if 0 < threat_2_level (uint lv) then [threat_2_speed (uint speed1)] else []))
       \<and> 0 \<le> threat_1_speed (uint speed1) \<and> threat_1_speed (uint speed1) \<le> 15
       \<and> 0 \<le> threat_2_speed (uint speed1) \<and> threat_2_speed (uint speed1) \<le> 15"
  using speed_range [of "uint speed1"]
  by (simp add: Bryton_parse_eight)

text \<open>
  The claim as stated fails where the raw speed is not zero. The payload
  00 01 00 00 00 00 0F 00 has level 1 and raw speed 15 in slot 1; the measurement holds
  15, and 15 * 3.04 * 3.6 is 164.16, more than 149 away: no rounding of the product
  closes the gap.
\<close>

theorem Bryton_speed_scaled_counterexample:
  "Bryton_parse_radar_measurement (radar_init BrytonGardiaRadar 0) [0, 1, 0, 0, 0, 0, 15, 0] =
     Inr (Some [\<lparr>threat_id = PyNone, level = PyInt 1, speed = PyInt 15, distance = PyInt 0\<rparr>])
   \<and> threat_1_speed (uint (15 :: byte)) = 15
   \<and> spec_speed_kmh 15 = 164.16
   \<and> py_number (PyInt 15) \<noteq> Some (spec_speed_kmh 15)
   \<and> 149 < \<bar>spec_speed_kmh 15 - 15\<bar>"
  by (simp add: Bryton_parse_eight threat_1_level_def threat_2_level_def threat_1_speed_def
      threat_1_distance_def spec_speed_kmh_def)

subsection \<open>The sentinel and the observer\<close>



subsection \<open>Faults of the bit-packed decoder\<close>

text \<open>
  C5, as the code has it. The bit-packed decoder raises exactly when the payload is
  shorter than eight bytes, and then it raises \<^verbatim>\<open>struct.error\<close>. It never returns
  \<^verbatim>\<open>None\<close>. The dispatch of a \<^verbatim>\<open>BrytonGardiaRadar\<close> with a callback lets that exception
  through, and raises nothing else. A payload longer than eight bytes is decoded from its
  first eight.
\<close>

theorem Bryton_fault_iff_short:
  "(Bryton_parse_radar_measurement self data = Inl e) = (e = StructError \<and> length data < 8)
   \<and> Bryton_parse_radar_measurement self data \<noteq> Inr None
   \<and> (radar_measurement_notification_handler
         \<lparr>cls = BrytonGardiaRadar, client = cl, radar_measurement_callback = Some callback\<rparr>
         data = Raised e) = (e = StructError \<and> length data < 8)
   \<and> Bryton_parse_radar_measurement self
        ([pg, lv, sd, dist1, dist2, dist3, speed1, speed2] @ extra) =
       Bryton_parse_radar_measurement self [pg, lv, sd, dist1, dist2, dist3, speed1, speed2]"
proof -
  have fault:
    "(Bryton_parse_radar_measurement self data = Inl e) = (e = StructError \<and> length data < 8)
     \<and> Bryton_parse_radar_measurement self data \<noteq> Inr None
     \<and> (radar_measurement_notification_handler
           \<lparr>cls = BrytonGardiaRadar, client = cl, radar_measurement_callback = Some callback\<rparr>
           data = Raised e) = (e = StructError \<and> length data < 8)"
  proof (cases "length data < 8")
    case True
    then show ?thesis
      by (auto simp add: Bryton_parse_short radar_measurement_notification_handler_def
          call_parse_on_instance_def invoke_callback_def)
  next
    case False
    then obtain ms where "Bryton_parse_radar_measurement
        \<lparr>cls = BrytonGardiaRadar, client = cl, radar_measurement_callback = Some callback\<rparr> data
          = Inr (Some ms)"
      using Bryton_parse_long [of data] by (auto simp add: not_less)
    moreover from False obtain ms' where
      "Bryton_parse_radar_measurement self data = Inr (Some ms')"
      using Bryton_parse_long [of data self] by (auto simp add: not_less)
    ultimately show ?thesis using False
      by (simp add: radar_measurement_notification_handler_def
          call_parse_on_instance_def invoke_callback_def)
  qed
  have prefix:
    "Bryton_parse_radar_measurement self
        ([pg, lv, sd, dist1, dist2, dist3, speed1, speed2] @ extra) =
       Bryton_parse_radar_measurement self [pg, lv, sd, dist1, dist2, dist3, speed1, speed2]"
    by (rule Bryton_parse_extra_bytes)
  from fault prefix show ?thesis by blast
qed

text \<open>
  The claim as stated has every payload that is not eight bytes long raise. A payload of
  nine bytes is decoded from its first eight.
\<close>

theorem Bryton_long_payload_counterexample:
  "length [0, 1, 0, 63, 0, 0, 15, 0, 0 :: byte] \<noteq> 8
   \<and> Bryton_parse_radar_measurement (radar_init BrytonGardiaRadar 0)
        [0, 1, 0, 63, 0, 0, 15, 0, 0] =
       Inr (Some [\<lparr>threat_id = PyNone, level = PyInt 1, speed = PyInt 15,
                    distance = PyInt 63\<rparr>])"
  by (simp add: Bryton_parse_radar_measurement_def unpack_from_BBB3BBB_def append_if_def
      threat_1_level_def threat_2_level_def threat_1_speed_def threat_1_distance_def)

subsection \<open>Underrun of the byte-aligned decoder\<close>

text \<open>
  C6. The specification has the byte-aligned decoder return \<^verbatim>\<open>None\<close>, and raise nothing,
  for every payload too short to complete its last group. By \<open>Garmin_parse_underrun\<close>
  that is so for two and for three bytes, where the only group is the incomplete one. The
  five bytes 00 05 0A 14 07 hold a complete group before the incomplete one: the
  constructor call for the complete group raises \<^verbatim>\<open>TypeError\<close>, which the handler for
  \<^verbatim>\<open>IndexError\<close> does not catch.
\<close>

theorem Garmin_parse_truncated_after_group_raises:
  "Garmin_parse_radar_measurement [0, 5, 10, 20, 7] = Inl TypeError"
  by (simp add: Garmin_parse_complete_group)

subsection \<open>Levels of the emitted measurements\<close>

text \<open>
  C7. For every 8-byte payload the decoder returns a list in which every measurement has
  a level from 1 to 3; the levels are those of slots 1 and 2 that are not zero, in order,
  so a slot of level 0 gives no measurement; and the list is the same when every field of
  slots 3 and 4 is cleared (the high half of the level byte, the high half of the second
  distance byte, the third distance byte, the second speed byte), so these slots give no
  measurement at any level.
\<close>

theorem Bryton_emits_nonzero_levels_only:
  "\<exists>ms. Bryton_parse_radar_measurement self [pg, lv, sd, dist1, dist2, dist3, speed1, speed2]
           = Inr (Some ms)
       \<and> (\<forall>m \<in> set ms. \<exists>l. level m = PyInt l \<and> 1 \<le> l \<and> l \<le> 3)
       \<and> map level ms =
           map PyInt (filter (\<lambda>l. l \<noteq> 0) [threat_1_level (uint lv), threat_2_level (uint lv)])
       \<and> Bryton_parse_radar_measurement self
            [pg, lv AND 15, sd, dist1, dist2 AND 15, 0, speed1, 0] = Inr (Some ms)"
  using level_range [of "uint lv"]
  by (auto simp add: Bryton_parse_eight level_ignores_high_nibble distance_ignores_high_nibble)

text \<open>
  At the payload 00 F4 00 FF FF FF FF FF the levels of the four slots are 0, 1, 3, 3: the
  list holds the measurement of slot 2 alone.
\<close>

theorem Bryton_emits_nonzero_levels_only_witness:
  "Bryton_parse_radar_measurement (radar_init BrytonGardiaRadar 0)
       [0, 244, 0, 255, 255, 255, 255, 255] =
     Inr (Some [\<lparr>threat_id = PyNone, level = PyInt 1, speed = PyInt 15,
                  distance = PyInt 63\<rparr>])
   \<and> threat_1_level (uint (244 :: byte)) = 0
   \<and> threat_3_level (uint (244 :: byte)) = 3
   \<and> threat_4_level (uint (244 :: byte)) = 3"
  using Bryton_emits_nonzero_levels_only
    [of "radar_init BrytonGardiaRadar 0" 0 244 0 255 255 255 255 255]
  by (simp add: Bryton_parse_eight threat_1_level_def threat_2_level_def threat_3_level_def
      threat_4_level_def threat_2_speed_def threat_2_distance_def)

subsection \<open>Extraction of the raw distances\<close>

text \<open>
  C8. For every 8-byte payload the unpacking gives the eight bytes as integers, and the
  four raw distances the decoder computes from the three distance bytes are those of the
  specification: the low 6 bits of the first byte; the top 2 bits of the first byte with
  the low 4 bits of the second above them; the top 4 bits of the second byte with the low
  2 bits of the third above them; bits 2 to 7 of the third byte.
\<close>

theorem Bryton_distance_extraction:
  "unpack_from_BBB3BBB [pg, lv, sd, dist1, dist2, dist3, speed1, speed2] =
     Inr (uint pg, uint lv, uint sd, uint dist1, uint dist2, uint dist3, uint speed1, uint speed2)
   \<and> threat_1_distance (uint dist1) = spec_slot_1_distance (uint dist1)
   \<and> threat_2_distance (uint dist1) (uint dist2) = spec_slot_2_distance (uint dist1) (uint dist2)
   \<and> threat_3_distance (uint dist2) (uint dist3) = spec_slot_3_distance (uint dist2) (uint dist3)
   \<and> threat_4_distance (uint dist3) = spec_slot_4_distance (uint dist3)"
  by (simp only: unpack_eight threat_1_distance_spec threat_2_distance_spec
      threat_3_distance_spec threat_4_distance_spec simp_thms)

subsection \<open>Determinism of the bit-packed decoder\<close>

text \<open>
  C9. For every 8-byte payload the decoder returns a list, and it returns the same list on
  any two instances, whatever their client and their registered callback: the result
  depends on the bytes alone.
\<close>

theorem Bryton_parse_deterministic:
  "length data = 8 \<Longrightarrow>
     \<exists>ms. Bryton_parse_radar_measurement self data = Inr (Some ms)
        \<and> Bryton_parse_radar_measurement self' data = Inr (Some ms)"
  using Bryton_parse_long [of data self] Bryton_parse_ignores_self [of self data self']
  by auto

text \<open>
  Two instances that differ in client and callback, on the payload
  00 05 00 FF FF 00 0F 00.
\<close>

theorem Bryton_parse_deterministic_witness:
  "length [0, 5, 0, 255, 255, 0, 15, 0 :: byte] = 8
   \<and> Bryton_parse_radar_measurement (radar_init BrytonGardiaRadar 0)
        [0, 5, 0, 255, 255, 0, 15, 0] =
       Inr (Some [\<lparr>threat_id = PyNone, level = PyInt 1, speed = PyInt 15,
                    distance = PyInt 63\<rparr>,
                  \<lparr>threat_id = PyNone, level = PyInt 1, speed = PyInt 0,
                    distance = PyInt 63\<rparr>])
   \<and> Bryton_parse_radar_measurement
        \<lparr>cls = BrytonGardiaRadar, client = 3, radar_measurement_callback = Some 7\<rparr>
        [0, 5, 0, 255, 255, 0, 15, 0] =
       Inr (Some [\<lparr>threat_id = PyNone, level = PyInt 1, speed = PyInt 15,
                    distance = PyInt 63\<rparr>,
                  \<lparr>threat_id = PyNone, level = PyInt 1, speed = PyInt 0,
                    distance = PyInt 63\<rparr>])"
  using Bryton_parse_deterministic
    [of "[0, 5, 0, 255, 255, 0, 15, 0]" "radar_init BrytonGardiaRadar 0"
        "\<lparr>cls = BrytonGardiaRadar, client = 3, radar_measurement_callback = Some 7\<rparr>"]
  by (simp add: Bryton_parse_eight threat_1_level_def threat_2_level_def threat_1_speed_def
      threat_2_speed_def threat_1_distance_def threat_2_distance_def)

subsection \<open>The default variant of the service\<close>

text \<open>
  C10. A service built without naming a class holds a \<^verbatim>\<open>GarminVariaRadar\<close>. Enabling
  and disabling its notifications call the client with that class's characteristic
  identifier, registering a callback stores it in that instance and leaves its class, and
  the identifier is not the one of \<^verbatim>\<open>BrytonGardiaRadar\<close>.
\<close>

theorem service_default_is_Garmin:
  "cls (service_radar (RearViewRadarService_init cl None)) = GarminVariaRadar
   \<and> service_enable_radar_measurement_notifications (RearViewRadarService_init cl None) =
       StartNotify cl ''6a4e3203-667b-11e3-949a-0800200c9a66''
   \<and> service_disable_radar_measurement_notifications (RearViewRadarService_init cl None) =
       StopNotify cl ''6a4e3203-667b-11e3-949a-0800200c9a66''
   \<and> service_set_radar_measurement_handler (RearViewRadarService_init cl None) callback =
       \<lparr>service_radar =
          \<lparr>cls = GarminVariaRadar, client = cl, radar_measurement_callback = callback\<rparr>\<rparr>
   \<and> service_enable_radar_measurement_notifications
        (service_set_radar_measurement_handler (RearViewRadarService_init cl None) callback) =
       StartNotify cl (RADAR_CHARACTERISTIC_ID GarminVariaRadar)
   \<and> RADAR_CHARACTERISTIC_ID GarminVariaRadar \<noteq> RADAR_CHARACTERISTIC_ID BrytonGardiaRadar"
  by (simp add: RearViewRadarService_init_def radar_init_def
      service_enable_radar_measurement_notifications_def
      service_disable_radar_measurement_notifications_def
      service_set_radar_measurement_handler_def set_radar_measurement_handler_def
      enable_radar_measurement_notifications_def disable_radar_measurement_notifications_def
      RADAR_CHARACTERISTIC_ID_def)

end
